theory Spec2Isabelle
  imports Complex_Main
begin

section \<open>Python values and strings\<close>

text \<open>
  The program is \<^verbatim>\<open>src/app.py\<close>: a Streamlit page that reads a CSV into a pandas
  DataFrame, scrapes a description and an image for every row, computes a selling price
  and uploads every row to Shopify. Everything it calls outside the file (requests,
  BeautifulSoup, shopify, the numeric primitives of Python) is a field of the record
  \<open>env\<close> below; the functions of the file are translated one by one.

  A cell of the DataFrame, and any Python value the program passes around, is one of:
  \<open>PyNone\<close>, the float \<open>NaN\<close> (what pandas stores for an empty CSV field), a number
  \<open>Num n\<close> (an int or a float that is not NaN; the type \<open>'n\<close> is left open), or a
  string.
\<close>

datatype 'n cell = PyNone | NaN | Num 'n | Str string

text \<open>\<^verbatim>\<open>pd.isna\<close> / \<^verbatim>\<open>pd.notnull\<close> on a scalar.\<close>

definition isna :: "'n cell \<Rightarrow> bool" where
  "isna c = (case c of PyNone \<Rightarrow> True | NaN \<Rightarrow> True | _ \<Rightarrow> False)"

definition notnull :: "'n cell \<Rightarrow> bool" where
  "notnull c = (\<not> isna c)"

text \<open>
  \<^verbatim>\<open>str.strip()\<close>: the ASCII characters for which \<^verbatim>\<open>str.isspace\<close> holds are removed at
  both ends (a \<open>string\<close> is a list of bytes: whitespace beyond ASCII is not modelled).
\<close>

definition is_space :: "char \<Rightarrow> bool" where
  "is_space c = (c \<in> set [CHR 0x09, CHR 0x0A, CHR 0x0B, CHR 0x0C, CHR 0x0D,
                           CHR 0x1C, CHR 0x1D, CHR 0x1E, CHR 0x1F, CHR 0x20])"

definition strip :: "string \<Rightarrow> string" where
  "strip s = rev (dropWhile is_space (rev (dropWhile is_space s)))"

text \<open>
  \<^verbatim>\<open>repr\<close> of a \<^verbatim>\<open>str\<close> and \<^verbatim>\<open>str\<close> of a list of \<^verbatim>\<open>str\<close>, which is what an f-string
  prints for a list. The quote is the double quote when the string holds a single quote and
  no double quote, the single quote otherwise; the quote and the backslash are escaped,
  control characters are written \<^verbatim>\<open>\n\<close>, \<^verbatim>\<open>\r\<close>, \<^verbatim>\<open>\t\<close> or \<^verbatim>\<open>\xhh\<close>; bytes from
  0x80 on are kept (printable non-ASCII text).
\<close>

definition hex_digit :: "nat \<Rightarrow> char" where
  "hex_digit d = (if d < 10 then char_of (48 + d) else char_of (87 + d))"

definition repr_char :: "char \<Rightarrow> char \<Rightarrow> string" where
  "repr_char q c =
     (if c = q \<or> c = CHR 0x5C then [CHR 0x5C, c]
      else if c = CHR 0x09 then [CHR 0x5C, CHR ''t'']
      else if c = CHR 0x0A then [CHR 0x5C, CHR ''n'']
      else if c = CHR 0x0D then [CHR 0x5C, CHR ''r'']
      else if (of_char c :: nat) < 0x20 \<or> c = CHR 0x7F
        then [CHR 0x5C, CHR ''x'', hex_digit ((of_char c :: nat) div 16),
              hex_digit ((of_char c :: nat) mod 16)]
      else [c])"

definition py_repr_str :: "string \<Rightarrow> string" where
  "py_repr_str s =
     (let q = (if CHR 0x27 \<in> set s \<and> CHR 0x22 \<notin> set s then CHR 0x22 else CHR 0x27)
      in q # concat (map (repr_char q) s) @ [q])"

fun join_comma :: "string list \<Rightarrow> string" where
  "join_comma [] = []"
| "join_comma [x] = x"
| "join_comma (x # y # ys) = x @ '', '' @ join_comma (y # ys)"

definition py_repr_list :: "string list \<Rightarrow> string" where
  "py_repr_list xs = ''['' @ join_comma (map py_repr_str xs) @ '']''"

section \<open>The scraped pages\<close>

text \<open>
  A parsed page (\<^verbatim>\<open>BeautifulSoup(response.content, "html.parser")\<close>) is what the two
  scraping functions ask of it:
  \<^item> \<open>popular_div\<close>: \<^verbatim>\<open>soup.find("div", class_="c-suggest-popular dx_suggest-products")\<close>,
    with \<open>find_a\<close> its \<^verbatim>\<open>find("a", class_="c-option suggested-product")\<close> and \<open>href\<close>
    that link's \<^verbatim>\<open>get("href")\<close>;
  \<^item> \<open>description_div\<close>: \<^verbatim>\<open>soup.find("div", {"id": "dx-description-container"})\<close>, given by
    its \<^verbatim>\<open>get_text(strip=True)\<close>;
  \<^item> \<open>image_div\<close>: \<^verbatim>\<open>soup.find("div", class_="dx_product-image__container")\<close>, with
    \<open>find_img\<close> its \<^verbatim>\<open>find("img")\<close> and \<open>src\<close> that element's \<^verbatim>\<open>get("src")\<close>.
  A \<^verbatim>\<open>find\<close> that finds nothing and a \<^verbatim>\<open>get\<close> of a missing attribute are \<open>None\<close>.
\<close>

datatype a_tag = A_tag (href: "string option")
datatype suggest_div = Suggest_div (find_a: "a_tag option")
datatype img_tag = Img_tag (src: "string option")
datatype image_container = Image_container (find_img: "img_tag option")

record soup =
  popular_div :: "suggest_div option"
  description_div :: "string option"
  image_div :: "image_container option"

text \<open>
  The body of a response: \<open>Inl e\<close> when the parsing block of the caller raises an
  exception whose \<^verbatim>\<open>str\<close> is \<open>e\<close>, \<open>Inr page\<close> when it parses.
\<close>

type_synonym content = "string + soup"

section \<open>The commerce platform\<close>

text \<open>
  The objects of the \<^verbatim>\<open>shopify\<close> library that \<^verbatim>\<open>upload_product\<close> builds: a product with its
  attributes, one variant, and the \<open>images\<close> attribute, which is only set when an image is
  attached (\<open>None\<close>: the attribute was never assigned).
\<close>

record 'n variant =
  price :: 'n
  sku :: string
  inventory_management :: string

datatype 'n image = Image (image_src: "'n cell")

record 'n product =
  title :: string
  body_html :: "'n cell"
  status :: string
  variants :: "'n variant list"
  images :: "'n image list option"

text \<open>
  What \<^verbatim>\<open>product.save()\<close> leaves behind: \<open>Rejected msgs\<close> when it returns false, with
  \<open>msgs\<close> the list \<^verbatim>\<open>product.errors.full_messages()\<close>; \<open>Saved p\<close> when it returns true, with
  the product's new \<^verbatim>\<open>id\<close> and the \<^verbatim>\<open>inventory_item_id\<close> of each of its variants, in order.
\<close>

record 'n saved_product =
  product_id :: 'n
  variant_items :: "int list"

datatype 'n save_result = Rejected "string list" | Saved "'n saved_product"

text \<open>
  The third component of the result of \<^verbatim>\<open>upload_product\<close>: the list of validation messages,
  or a single message. \<open>py_format_error\<close> is what \<^verbatim>\<open>f"{error}"\<close> prints.
\<close>

datatype error_value = Messages "string list" | Message string

definition py_format_error :: "error_value option \<Rightarrow> string" where
  "py_format_error e =
     (case e of None \<Rightarrow> ''None'' | Some (Message m) \<Rightarrow> m | Some (Messages ms) \<Rightarrow> py_repr_list ms)"

section \<open>The table\<close>

text \<open>
  A DataFrame with the default index \<open>0, 1, ...\<close>: the column labels in order, and the rows,
  each giving a cell for every column label.
\<close>

record 'n dataframe =
  columns :: "string list"
  rows :: "(string \<Rightarrow> 'n cell) list"

text \<open>\<^verbatim>\<open>df[c] = values\<close> with a list: pandas raises when the lengths differ.\<close>

definition set_column :: "string \<Rightarrow> 'n cell list \<Rightarrow> 'n dataframe \<Rightarrow> string + 'n dataframe" where
  "set_column c vs df =
     (if length vs \<noteq> length (rows df)
      then Inl ''Length of values does not match length of index''
      else Inr (df\<lparr>columns := (if c \<in> set (columns df) then columns df else columns df @ [c]),
                   rows := map (\<lambda>(r, v). r(c := v)) (zip (rows df) vs)\<rparr>))"

text \<open>\<^verbatim>\<open>if c not in df.columns: df[c] = v\<close> with a scalar \<open>v\<close>.\<close>

definition set_default_column :: "string \<Rightarrow> 'n cell \<Rightarrow> 'n dataframe \<Rightarrow> 'n dataframe" where
  "set_default_column c v df =
     (if c \<in> set (columns df) then df
      else df\<lparr>columns := columns df @ [c], rows := map (\<lambda>r. r(c := v)) (rows df)\<rparr>)"

text \<open>\<^verbatim>\<open>df.at[idx, c] = v\<close> for a row label \<open>idx\<close> of the index.\<close>

definition at_set :: "nat \<Rightarrow> string \<Rightarrow> 'n cell \<Rightarrow> 'n dataframe \<Rightarrow> 'n dataframe" where
  "at_set idx c v df = df\<lparr>rows := (rows df)[idx := ((rows df) ! idx)(c := v)]\<rparr>"

definition opt_cell :: "string option \<Rightarrow> 'n cell" where
  "opt_cell x = (case x of None \<Rightarrow> PyNone | Some s \<Rightarrow> Str s)"

section \<open>The outside world\<close>

text \<open>
  What the program does to the outside is recorded, in order, in a trace: the calls of the
  two scraping functions, the messages shown with \<^verbatim>\<open>st.warning\<close> and \<^verbatim>\<open>st.error\<close>, the
  pauses, and the requests to the commerce platform. (The previews, the download buttons
  and the log file are left out.)
\<close>

datatype 'n event =
    Lookup string
  | Details string
  | Warning string
  | Error string
  | Sleep nat
  | Activate_session
  | Clear_session
  | Product_save "'n product"
  | Location_find
  | Inventory_set int int int

text \<open>
  The state: the outside world \<open>'w\<close> (the catalogue site and the shop, which may answer the
  same request differently each time), the trace, and \<^verbatim>\<open>st.session_state["dataframe"]\<close>.
\<close>

record ('w, 'n) state =
  world :: 'w
  trace :: "'n event list"
  session :: "'n dataframe option"

text \<open>
  The environment. A request returns \<open>Inl\<close> when it raises:
  \<^item> \<open>requests_get url\<close>: \<^verbatim>\<open>requests.get(url, headers=headers, timeout=10)\<close> followed by
    \<^verbatim>\<open>raise_for_status()\<close>. It raises a \<^verbatim>\<open>requests.RequestException\<close>, which the two
    scraping functions catch, or an exception of another class, which they do not; each
    carries its \<^verbatim>\<open>str\<close>;
  \<^item> \<open>activate_session shop_url api_version api_token\<close>: \<^verbatim>\<open>shopify.Session(...)\<close> followed by
    \<^verbatim>\<open>shopify.ShopifyResource.activate_session(session)\<close>; \<open>Inl e\<close>: it raises an exception
    whose \<^verbatim>\<open>str\<close> is \<open>e\<close> (the library refuses the credentials or the version);
  \<^item> \<open>product_save\<close>: \<^verbatim>\<open>product.save()\<close>; \<open>location_find\<close>: \<^verbatim>\<open>shopify.Location.find()\<close>, giving
    the \<^verbatim>\<open>id\<close> of each location; \<open>inventory_set location item available\<close>:
    \<^verbatim>\<open>shopify.InventoryLevel().set(...)\<close>; \<open>Inl e\<close>: an exception whose \<^verbatim>\<open>str\<close> is \<open>e\<close>;
  \<^item> the numeric primitives of Python on the open number type: \<^verbatim>\<open>str(x)\<close>, \<^verbatim>\<open>bool(x)\<close>,
    the float product, the literals \<^verbatim>\<open>1.40\<close> and \<^verbatim>\<open>0.0\<close>, \<^verbatim>\<open>int(v)\<close> and \<^verbatim>\<open>float(v)\<close> of a
    value that is not missing (they raise on text that is not a number), and the number
    that \<^verbatim>\<open>read_csv\<close> reads in a field, if it reads one.
\<close>

datatype request_error = Request_exception string | Other_exception string

record ('w, 'n) env =
  requests_get :: "string \<Rightarrow> 'w \<Rightarrow> (request_error + content) \<times> 'w"
  activate_session :: "string \<Rightarrow> string \<Rightarrow> string \<Rightarrow> 'w \<Rightarrow> (string + unit) \<times> 'w"
  product_save :: "'n product \<Rightarrow> 'w \<Rightarrow> (string + 'n save_result) \<times> 'w"
  location_find :: "'w \<Rightarrow> (string + int list) \<times> 'w"
  inventory_set :: "int \<Rightarrow> int \<Rightarrow> int \<Rightarrow> 'w \<Rightarrow> (string + unit) \<times> 'w"
  num_str :: "'n \<Rightarrow> string"
  num_truthy :: "'n \<Rightarrow> bool"
  float_mul :: "'n \<Rightarrow> 'n \<Rightarrow> 'n"
  lit_1_40 :: 'n
  lit_0_0 :: 'n
  py_int :: "'n cell \<Rightarrow> string + int"
  py_float :: "'n cell \<Rightarrow> string + 'n"
  num_parse :: "string \<Rightarrow> 'n option"

definition emit :: "'n event \<Rightarrow> ('w, 'n) state \<Rightarrow> ('w, 'n) state" where
  "emit e s = s\<lparr>trace := trace s @ [e]\<rparr>"

text \<open>\<^verbatim>\<open>str(v)\<close> and \<^verbatim>\<open>bool(v)\<close> of a Python value.\<close>

definition py_str :: "('w, 'n) env \<Rightarrow> 'n cell \<Rightarrow> string" where
  "py_str env v =
     (case v of PyNone \<Rightarrow> ''None'' | NaN \<Rightarrow> ''nan'' | Num n \<Rightarrow> num_str env n | Str s \<Rightarrow> s)"

definition truthy :: "('w, 'n) env \<Rightarrow> 'n cell \<Rightarrow> bool" where
  "truthy env v =
     (case v of PyNone \<Rightarrow> False | NaN \<Rightarrow> True | Num n \<Rightarrow> num_truthy env n | Str s \<Rightarrow> s \<noteq> [])"

section \<open>Helper functions for scraping\<close>

definition search_url :: "string \<Rightarrow> string" where
  "search_url gtin = ''https://www.deloox.se/api/search?keyword='' @ gtin"

definition http_get ::
  "('w, 'n) env \<Rightarrow> string \<Rightarrow> ('w, 'n) state
     \<Rightarrow> (request_error + content) \<times> ('w, 'n) state" where
  "http_get env url s =
     (case requests_get env url (world s) of (r, w) \<Rightarrow> (r, s\<lparr>world := w\<rparr>))"

text \<open>
  The two functions return \<open>Inl e\<close> when an exception leaves them: the first \<^verbatim>\<open>try\<close> of
  each catches \<^verbatim>\<open>requests.RequestException\<close> only, so an exception of another class raised
  by the request goes on to the caller. \<open>Inr\<close> holds the value returned.
\<close>

definition fetch_product_link ::
  "('w, 'n) env \<Rightarrow> string \<Rightarrow> ('w, 'n) state
     \<Rightarrow> (string + string option) \<times> ('w, 'n) state" where
  "fetch_product_link env gtin s =
     (case http_get env (search_url gtin) (emit (Lookup gtin) s) of
        (Inl (Request_exception e), s1) \<Rightarrow>
          (Inr None, emit (Warning (''Error fetching data for GTIN '' @ gtin @ '': '' @ e)) s1)
      | (Inl (Other_exception e), s1) \<Rightarrow> (Inl e, s1)
      | (Inr (Inl e), s1) \<Rightarrow>
          (Inr None,
           emit (Warning (''Error parsing response for GTIN '' @ gtin @ '': '' @ e)) s1)
      | (Inr (Inr page), s1) \<Rightarrow>
          (case popular_div page of
             None \<Rightarrow> (Inr None, s1)
           | Some product_container \<Rightarrow>
               (case find_a product_container of
                  None \<Rightarrow> (Inr None, s1)
                | Some product_link \<Rightarrow>
                    (case href product_link of
                       None \<Rightarrow> (Inr None, s1)
                     | Some h \<Rightarrow> if h \<noteq> [] then (Inr (Some h), s1) else (Inr None, s1)))))"

definition fetch_product_details ::
  "('w, 'n) env \<Rightarrow> string \<Rightarrow> ('w, 'n) state
     \<Rightarrow> (string + string option \<times> string option) \<times> ('w, 'n) state" where
  "fetch_product_details env url s =
     (case http_get env url (emit (Details url) s) of
        (Inl (Request_exception e), s1) \<Rightarrow>
          (Inr (None, None),
           emit (Warning (''Error fetching product details for URL '' @ url @ '': '' @ e)) s1)
      | (Inl (Other_exception e), s1) \<Rightarrow> (Inl e, s1)
      | (Inr (Inl e), s1) \<Rightarrow>
          (Inr (None, None),
           emit (Warning (''Error parsing product details for URL '' @ url @ '': '' @ e)) s1)
      | (Inr (Inr page), s1) \<Rightarrow>
          (let description_text =
                 (case description_div page of Some text \<Rightarrow> text | None \<Rightarrow> '''');
               image_url =
                 (case image_div page of
                    None \<Rightarrow> None
                  | Some container \<Rightarrow>
                      (case find_img container of None \<Rightarrow> None | Some img \<Rightarrow> src img))
           in (Inr (Some description_text, image_url), s1)))"

section \<open>Shopify-related functions\<close>

text \<open>
  \<^verbatim>\<open>initialize_shopify_session\<close> has no \<^verbatim>\<open>try\<close>: \<open>Inl e\<close> when the library raises.
\<close>

definition initialize_shopify_session ::
  "('w, 'n) env \<Rightarrow> string \<Rightarrow> string \<Rightarrow> string \<Rightarrow> ('w, 'n) state
     \<Rightarrow> (string + unit) \<times> ('w, 'n) state" where
  "initialize_shopify_session env shop_url' api_version' api_token' s =
     (case activate_session env shop_url' api_version' api_token' (world s) of
        (r, w) \<Rightarrow> (r, emit Activate_session (s\<lparr>world := w\<rparr>)))"

definition clear_shopify_session :: "('w, 'n) state \<Rightarrow> ('w, 'n) state" where
  "clear_shopify_session s = emit Clear_session s"

text \<open>The three requests of \<^verbatim>\<open>upload_product\<close>, each recorded in the trace.\<close>

definition api_save ::
  "('w, 'n) env \<Rightarrow> 'n product \<Rightarrow> ('w, 'n) state
     \<Rightarrow> (string + 'n save_result) \<times> ('w, 'n) state" where
  "api_save env p s =
     (case product_save env p (world s) of
        (r, w) \<Rightarrow> (r, emit (Product_save p) (s\<lparr>world := w\<rparr>)))"

definition api_find ::
  "('w, 'n) env \<Rightarrow> ('w, 'n) state \<Rightarrow> (string + int list) \<times> ('w, 'n) state" where
  "api_find env s =
     (case location_find env (world s) of
        (r, w) \<Rightarrow> (r, emit Location_find (s\<lparr>world := w\<rparr>)))"

definition api_set ::
  "('w, 'n) env \<Rightarrow> int \<Rightarrow> int \<Rightarrow> int \<Rightarrow> ('w, 'n) state
     \<Rightarrow> (string + unit) \<times> ('w, 'n) state" where
  "api_set env location_id inventory_item_id available s =
     (case inventory_set env location_id inventory_item_id available (world s) of
        (r, w) \<Rightarrow> (r, emit (Inventory_set location_id inventory_item_id available)
                       (s\<lparr>world := w\<rparr>)))"

type_synonym 'n upload_result = "bool \<times> 'n option \<times> error_value option"

text \<open>
  The product that \<^verbatim>\<open>upload_product\<close> builds before it saves it: title, body, status, the
  variant, and the image when \<^verbatim>\<open>image_url\<close> is truthy.
\<close>

definition new_product ::
  "('w, 'n) env \<Rightarrow> 'n cell \<Rightarrow> 'n cell \<Rightarrow> 'n \<Rightarrow> 'n cell \<Rightarrow> string \<Rightarrow> 'n product" where
  "new_product env name description price' image_url sku' =
     \<lparr>title = ''Test '' @ py_str env name,
      body_html = description,
      status = ''active'',
      variants = [\<lparr>price = price', sku = sku', inventory_management = ''shopify''\<rparr>],
      images = (if truthy env image_url then Some [Image image_url] else None)\<rparr>"

text \<open>
  The body of the \<^verbatim>\<open>try\<close> of \<^verbatim>\<open>upload_product\<close>: \<open>Inl e\<close> when it raises an exception whose
  \<^verbatim>\<open>str\<close> is \<open>e\<close> (a request that raises, or \<^verbatim>\<open>product.variants[0]\<close> on an empty list),
  \<open>Inr\<close> of the returned triple otherwise.
\<close>

definition upload_body ::
  "('w, 'n) env \<Rightarrow> 'n cell \<Rightarrow> 'n cell \<Rightarrow> 'n \<Rightarrow> 'n cell \<Rightarrow> string \<Rightarrow> int \<Rightarrow> ('w, 'n) state
     \<Rightarrow> (string + 'n upload_result) \<times> ('w, 'n) state" where
  "upload_body env name description price' image_url sku' inventory s =
     (case api_save env (new_product env name description price' image_url sku') s of
        (Inl e, s1) \<Rightarrow> (Inl e, s1)
      | (Inr (Rejected full_messages), s1) \<Rightarrow>
          (Inr (False, None, Some (Messages full_messages)), s1)
      | (Inr (Saved saved), s1) \<Rightarrow>
          (case variant_items saved of
             [] \<Rightarrow> (Inl ''list index out of range'', s1)
           | inventory_item_id # _ \<Rightarrow>
               (case api_find env s1 of
                  (Inl e, s2) \<Rightarrow> (Inl e, s2)
                | (Inr [], s2) \<Rightarrow>
                    (Inr (False, None, Some (Message ''No locations found for inventory.'')), s2)
                | (Inr (location_id # _), s2) \<Rightarrow>
                    (case api_set env location_id inventory_item_id inventory s2 of
                       (Inl e, s3) \<Rightarrow> (Inl e, s3)
                     | (Inr _, s3) \<Rightarrow> (Inr (True, Some (product_id saved), None), s3)))))"

text \<open>
  \<^verbatim>\<open>try: ... except Exception as e: ...\<close>: the handler runs in the state the body raised
  in. The result is again \<open>Inl\<close> when the handler itself raises.
\<close>

definition try_except ::
  "('s \<Rightarrow> (string + 'a) \<times> 's) \<Rightarrow> (string \<Rightarrow> 's \<Rightarrow> (string + 'a) \<times> 's)
     \<Rightarrow> 's \<Rightarrow> (string + 'a) \<times> 's" where
  "try_except body handler s =
     (case body s of (Inl e, s1) \<Rightarrow> handler e s1 | (Inr v, s1) \<Rightarrow> (Inr v, s1))"

definition upload_product ::
  "('w, 'n) env \<Rightarrow> 'n cell \<Rightarrow> 'n cell \<Rightarrow> 'n \<Rightarrow> 'n cell \<Rightarrow> string \<Rightarrow> int \<Rightarrow> ('w, 'n) state
     \<Rightarrow> (string + 'n upload_result) \<times> ('w, 'n) state" where
  "upload_product env name description price' image_url sku' inventory =
     try_except (upload_body env name description price' image_url sku' inventory)
       (\<lambda>e s1. (Inr (False, None, Some (Message e)), s1))"

section \<open>The Streamlit app\<close>

definition cost_col :: string where
  "cost_col = [CHR 0xE2, CHR 0x82, CHR 0xAC] @ '' Price inc. shipping''"

definition required_cols :: "string list" where
  "required_cols = [''GTIN'', ''Name'', ''Brand'', ''Category'', cost_col, ''Inventory'']"

definition missing_cols :: "'n dataframe \<Rightarrow> string list" where
  "missing_cols df = filter (\<lambda>col. col \<notin> set (columns df)) required_cols"

subsection \<open>Scraping\<close>

text \<open>
  One turn of the loop \<^verbatim>\<open>for idx, row in df.iterrows()\<close> of the scrape button: the
  values of \<^verbatim>\<open>link\<close>, \<^verbatim>\<open>desc\<close> and \<^verbatim>\<open>img\<close> when it reaches the pause; \<open>Inl e\<close> when an
  exception leaves one of the two calls, and with it the loop.
\<close>

definition scrape_row ::
  "('w, 'n) env \<Rightarrow> (string \<Rightarrow> 'n cell) \<Rightarrow> ('w, 'n) state
     \<Rightarrow> (string + string option \<times> string option \<times> string option) \<times> ('w, 'n) state" where
  "scrape_row env row s =
     (let gtin = strip (py_str env (row ''GTIN''))
      in case fetch_product_link env gtin s of
           (Inl e, s1) \<Rightarrow> (Inl e, s1)
         | (Inr link, s1) \<Rightarrow>
             (case (case link of
                      None \<Rightarrow> (Inr (None, None), s1)
                    | Some url \<Rightarrow>
                        if url \<noteq> [] then fetch_product_details env url s1
                        else (Inr (None, None), s1)) of
                (Inl e, s2) \<Rightarrow> (Inl e, s2)
              | (Inr (desc, img), s2) \<Rightarrow> (Inr (link, desc, img), emit (Sleep 1) s2)))"

text \<open>The loop; it returns \<^verbatim>\<open>scraped_descriptions\<close> and \<^verbatim>\<open>scraped_images\<close>.\<close>

fun scrape_rows ::
  "('w, 'n) env \<Rightarrow> (string \<Rightarrow> 'n cell) list \<Rightarrow> ('w, 'n) state
     \<Rightarrow> (string + string option list \<times> string option list) \<times> ('w, 'n) state" where
  "scrape_rows env [] s = (Inr ([], []), s)"
| "scrape_rows env (row # rest) s =
     (case scrape_row env row s of
        (Inl e, s3) \<Rightarrow> (Inl e, s3)
      | (Inr (link, desc, img), s3) \<Rightarrow>
          (case scrape_rows env rest s3 of
             (Inl e, s4) \<Rightarrow> (Inl e, s4)
           | (Inr (descs, imgs), s4) \<Rightarrow> (Inr (desc # descs, img # imgs), s4)))"

text \<open>\<^verbatim>\<open>[fetch_product_link(str(row["GTIN"])) for _, row in df.iterrows()]\<close>\<close>

fun lookup_rows ::
  "('w, 'n) env \<Rightarrow> (string \<Rightarrow> 'n cell) list \<Rightarrow> ('w, 'n) state
     \<Rightarrow> (string + string option list) \<times> ('w, 'n) state" where
  "lookup_rows env [] s = (Inr [], s)"
| "lookup_rows env (row # rest) s =
     (case fetch_product_link env (py_str env (row ''GTIN'')) s of
        (Inl e, s1) \<Rightarrow> (Inl e, s1)
      | (Inr link, s1) \<Rightarrow>
          (case lookup_rows env rest s1 of
             (Inl e, s2) \<Rightarrow> (Inl e, s2)
           | (Inr links, s2) \<Rightarrow> (Inr (link # links), s2)))"

text \<open>
  \<^verbatim>\<open>df[cost] * 1.40\<close>, cell by cell: a missing cost stays missing, a number is multiplied,
  and text (or \<^verbatim>\<open>None\<close>) in the column raises a \<^verbatim>\<open>TypeError\<close>.
\<close>

definition times_1_40 :: "('w, 'n) env \<Rightarrow> 'n cell \<Rightarrow> string + 'n cell" where
  "times_1_40 env v =
     (case v of
        NaN \<Rightarrow> Inr NaN
      | Num x \<Rightarrow> Inr (Num (float_mul env x (lit_1_40 env)))
      | Str s \<Rightarrow> Inl (''can't multiply sequence by non-int of type 'float'' @ [CHR 0x27])
      | PyNone \<Rightarrow> Inl (''unsupported operand type(s) for *: 'NoneType' and 'float'' @ [CHR 0x27]))"

fun column_times_1_40 :: "('w, 'n) env \<Rightarrow> 'n cell list \<Rightarrow> string + 'n cell list" where
  "column_times_1_40 env [] = Inr []"
| "column_times_1_40 env (v # vs) =
     (case times_1_40 env v of
        Inl e \<Rightarrow> Inl e
      | Inr p \<Rightarrow> (case column_times_1_40 env vs of Inl e \<Rightarrow> Inl e | Inr ps \<Rightarrow> Inr (p # ps)))"

text \<open>
  The block under \<^verbatim>\<open>if st.button("Scrape Data from Deloox")\<close>, up to the table it puts in
  the session state; \<open>Inl e\<close> when an exception leaves the block.
\<close>

definition scrape ::
  "('w, 'n) env \<Rightarrow> 'n dataframe \<Rightarrow> ('w, 'n) state
     \<Rightarrow> (string + 'n dataframe) \<times> ('w, 'n) state" where
  "scrape env df s =
     (case scrape_rows env (rows df) s of
        (Inl e, s1) \<Rightarrow> (Inl e, s1)
      | (Inr (scraped_descriptions, scraped_images), s1) \<Rightarrow>
     (case lookup_rows env (rows df) s1 of
        (Inl e, s2) \<Rightarrow> (Inl e, s2)
      | (Inr links, s2) \<Rightarrow>
     (case set_column ''Link'' (map opt_cell links) df of
        Inl e \<Rightarrow> (Inl e, s2)
      | Inr df1 \<Rightarrow>
     (case set_column ''Description'' (map opt_cell scraped_descriptions) df1 of
        Inl e \<Rightarrow> (Inl e, s2)
      | Inr df2 \<Rightarrow>
     (case set_column ''Image_URL'' (map opt_cell scraped_images) df2 of
        Inl e \<Rightarrow> (Inl e, s2)
      | Inr df3 \<Rightarrow>
     (case column_times_1_40 env (map (\<lambda>row. row cost_col) (rows df3)) of
        Inl e \<Rightarrow> (Inl e, s2)
      | Inr selling \<Rightarrow>
     (case set_column ''Selling Price'' selling df3 of
        Inl e \<Rightarrow> (Inl e, s2)
      | Inr df4 \<Rightarrow> (Inr df4, s2\<lparr>session := Some df4\<rparr>))))))))"

text \<open>
  What the page gives to \<^verbatim>\<open>main\<close>: the three fields of the sidebar, the uploaded file,
  given by what \<^verbatim>\<open>pd.read_csv\<close> makes of it (\<open>Inl e\<close> when it raises, the table otherwise),
  and the two buttons.
\<close>

record 'n ui =
  shop_url :: string
  api_version :: string
  api_token :: string
  uploaded_file :: "(string + 'n dataframe) option"
  scrape_button :: bool
  upload_button :: bool

text \<open>
  The block under \<^verbatim>\<open>if uploaded_file is not None\<close>. \<open>Returned\<close>: \<^verbatim>\<open>main\<close> returns from
  inside the block; \<open>Continue\<close>: it goes on to the upload section. An exception that
  leaves the scraping is caught by the \<^verbatim>\<open>except Exception\<close> of the block.
\<close>

datatype flow = Returned | Continue

definition read_and_scrape ::
  "('w, 'n) env \<Rightarrow> 'n ui \<Rightarrow> ('w, 'n) state \<Rightarrow> flow \<times> ('w, 'n) state" where
  "read_and_scrape env ui s =
     (case uploaded_file ui of
        None \<Rightarrow> (Continue, s)
      | Some (Inl e) \<Rightarrow> (Continue, emit (Error (''Error reading or processing file: '' @ e)) s)
      | Some (Inr df) \<Rightarrow>
          if missing_cols df \<noteq> []
          then (Returned, emit (Error (''Missing columns: '' @ py_repr_list (missing_cols df))) s)
          else if scrape_button ui
          then (case scrape env df s of
                  (Inl e, s1) \<Rightarrow>
                    (Continue, emit (Error (''Error reading or processing file: '' @ e)) s1)
                | (Inr _, s1) \<Rightarrow> (Continue, s1))
          else (Continue, s))"

subsection \<open>Uploading\<close>

definition id_cell :: "'n option \<Rightarrow> 'n cell" where
  "id_cell pid = (case pid of None \<Rightarrow> PyNone | Some i \<Rightarrow> Num i)"

text \<open>
  The values that a turn of the upload loop takes from its row: a missing description or
  image becomes the empty string, a missing price \<^verbatim>\<open>0.0\<close>, a missing inventory \<^verbatim>\<open>0\<close>;
  \<^verbatim>\<open>float(...)\<close> and \<^verbatim>\<open>int(...)\<close> may raise.
\<close>

definition row_description :: "(string \<Rightarrow> 'n cell) \<Rightarrow> 'n cell" where
  "row_description row =
     (if notnull (row ''Description'') then row ''Description'' else Str '''')"

definition row_selling_price :: "('w, 'n) env \<Rightarrow> (string \<Rightarrow> 'n cell) \<Rightarrow> string + 'n" where
  "row_selling_price env row =
     (if \<not> isna (row ''Selling Price'') then py_float env (row ''Selling Price'')
      else Inr (lit_0_0 env))"

definition row_image_url :: "(string \<Rightarrow> 'n cell) \<Rightarrow> 'n cell" where
  "row_image_url row =
     (if notnull (row ''Image_URL'') then row ''Image_URL'' else Str '''')"

definition row_inventory :: "('w, 'n) env \<Rightarrow> (string \<Rightarrow> 'n cell) \<Rightarrow> string + int" where
  "row_inventory env row =
     (if \<not> isna (row ''Inventory'') then py_int env (row ''Inventory'') else Inr 0)"

text \<open>
  The first half of a turn of the upload loop: the values are taken from the row and
  \<^verbatim>\<open>upload_product\<close> is called with them. \<open>Inl e\<close>: \<^verbatim>\<open>float(...)\<close> or \<^verbatim>\<open>int(...)\<close> raises
  (neither is inside a \<^verbatim>\<open>try\<close>); \<open>Inr\<close>: the triple that \<^verbatim>\<open>upload_product\<close> returns.
\<close>

definition row_upload ::
  "('w, 'n) env \<Rightarrow> (string \<Rightarrow> 'n cell) \<Rightarrow> ('w, 'n) state
     \<Rightarrow> (string + 'n upload_result) \<times> ('w, 'n) state" where
  "row_upload env row s =
     (let name = row ''Name'';
          description = row_description row
      in case row_selling_price env row of
           Inl e \<Rightarrow> (Inl e, s)
         | Inr selling_price \<Rightarrow>
     (let image_url = row_image_url row;
          sku' = py_str env (row ''GTIN'')
      in case row_inventory env row of
           Inl e \<Rightarrow> (Inl e, s)
         | Inr inventory \<Rightarrow>
             upload_product env name description selling_price image_url sku' inventory s))"

text \<open>
  One turn of the loop \<^verbatim>\<open>for idx, row in st.session_state["dataframe"].iterrows()\<close>, on the
  table \<open>df\<close> of the session state, which it updates in place: the call, then the two
  branches of \<^verbatim>\<open>if success\<close>. \<open>Inl e\<close>: an exception leaves the loop.
\<close>

definition upload_row ::
  "('w, 'n) env \<Rightarrow> nat \<times> (string \<Rightarrow> 'n cell) \<Rightarrow> 'n dataframe \<Rightarrow> ('w, 'n) state
     \<Rightarrow> (string + unit) \<times> 'n dataframe \<times> ('w, 'n) state" where
  "upload_row env idx_row df s =
     (case idx_row of (idx, row) \<Rightarrow>
      (case row_upload env row s of
         (Inl e, s1) \<Rightarrow> (Inl e, df, s1)
       | (Inr (success, pid, error), s1) \<Rightarrow>
           if success
           then (Inr (),
                 at_set idx ''Upload Status'' (Str ''Active'')
                   (at_set idx ''Product ID'' (id_cell pid) df),
                 s1)
           else (Inr (),
                 at_set idx ''Upload Status'' (Str (''Failed: '' @ py_format_error error)) df,
                 s1)))"

text \<open>
  The loop. \<^verbatim>\<open>iterrows\<close> reads the rows of the table once, when the loop starts; the list
  of the pairs \<open>(idx, row)\<close> is the first argument.
\<close>

fun upload_rows ::
  "('w, 'n) env \<Rightarrow> (nat \<times> (string \<Rightarrow> 'n cell)) list \<Rightarrow> 'n dataframe \<Rightarrow> ('w, 'n) state
     \<Rightarrow> (string + unit) \<times> 'n dataframe \<times> ('w, 'n) state" where
  "upload_rows env [] df s = (Inr (), df, s)"
| "upload_rows env (idx_row # rest) df s =
     (case upload_row env idx_row df s of
        (Inl e, df1, s1) \<Rightarrow> (Inl e, df1, s1)
      | (Inr _, df1, s1) \<Rightarrow> upload_rows env rest df1 s1)"

text \<open>The two columns that the upload section adds when the table lacks them.\<close>

definition prepare_columns :: "'n dataframe \<Rightarrow> 'n dataframe" where
  "prepare_columns df =
     set_default_column ''Upload Status'' (Str ''Pending'')
       (set_default_column ''Product ID'' PyNone df)"

text \<open>
  The block under \<^verbatim>\<open>if "dataframe" in st.session_state\<close>; \<open>Inl e\<close> when an exception leaves
  it, and with it \<^verbatim>\<open>main\<close>: the session cannot be opened, or the loop raises.
\<close>

definition shopify_upload ::
  "('w, 'n) env \<Rightarrow> 'n ui \<Rightarrow> ('w, 'n) state \<Rightarrow> (string + unit) \<times> ('w, 'n) state" where
  "shopify_upload env ui s =
     (case session s of
        None \<Rightarrow> (Inr (), s)
      | Some df \<Rightarrow>
          if upload_button ui
          then (case initialize_shopify_session env (shop_url ui) (api_version ui)
                       (api_token ui) s of
                  (Inl e, s1) \<Rightarrow> (Inl e, s1)
                | (Inr _, s1) \<Rightarrow>
                    (let df2 = prepare_columns df
                     in case upload_rows env (enumerate 0 (rows df2)) df2 s1 of
                          (Inl e, df3, s2) \<Rightarrow> (Inl e, s2\<lparr>session := Some df3\<rparr>)
                        | (Inr _, df3, s2) \<Rightarrow>
                            (Inr (), (clear_shopify_session s2)\<lparr>session := Some df3\<rparr>)))
          else (Inr (), s))"

definition main ::
  "('w, 'n) env \<Rightarrow> 'n ui \<Rightarrow> ('w, 'n) state \<Rightarrow> (string + unit) \<times> ('w, 'n) state" where
  "main env ui s =
     (case read_and_scrape env ui s of
        (Returned, s1) \<Rightarrow> (Inr (), s1)
      | (Continue, s1) \<Rightarrow> shopify_upload env ui s1)"

subsection \<open>One lookup per row\<close>

text \<open>
  The variant that the specification's design notes describe: the link found in the loop is
  kept and becomes the \<^verbatim>\<open>Link\<close> column, so that \<^verbatim>\<open>fetch_product_link\<close> is called once per
  row. Everything else is as in \<open>scrape\<close>.
\<close>

fun scrape_rows_memo ::
  "('w, 'n) env \<Rightarrow> (string \<Rightarrow> 'n cell) list \<Rightarrow> ('w, 'n) state
     \<Rightarrow> (string + string option list \<times> string option list \<times> string option list)
        \<times> ('w, 'n) state"
  where
  "scrape_rows_memo env [] s = (Inr ([], [], []), s)"
| "scrape_rows_memo env (row # rest) s =
     (case scrape_row env row s of
        (Inl e, s3) \<Rightarrow> (Inl e, s3)
      | (Inr (link, desc, img), s3) \<Rightarrow>
          (case scrape_rows_memo env rest s3 of
             (Inl e, s4) \<Rightarrow> (Inl e, s4)
           | (Inr (links, descs, imgs), s4) \<Rightarrow>
               (Inr (link # links, desc # descs, img # imgs), s4)))"

definition scrape_memo ::
  "('w, 'n) env \<Rightarrow> 'n dataframe \<Rightarrow> ('w, 'n) state
     \<Rightarrow> (string + 'n dataframe) \<times> ('w, 'n) state" where
  "scrape_memo env df s =
     (case scrape_rows_memo env (rows df) s of
        (Inl e, s2) \<Rightarrow> (Inl e, s2)
      | (Inr (links, scraped_descriptions, scraped_images), s2) \<Rightarrow>
     (case set_column ''Link'' (map opt_cell links) df of
        Inl e \<Rightarrow> (Inl e, s2)
      | Inr df1 \<Rightarrow>
     (case set_column ''Description'' (map opt_cell scraped_descriptions) df1 of
        Inl e \<Rightarrow> (Inl e, s2)
      | Inr df2 \<Rightarrow>
     (case set_column ''Image_URL'' (map opt_cell scraped_images) df2 of
        Inl e \<Rightarrow> (Inl e, s2)
      | Inr df3 \<Rightarrow>
     (case column_times_1_40 env (map (\<lambda>row. row cost_col) (rows df3)) of
        Inl e \<Rightarrow> (Inl e, s2)
      | Inr selling \<Rightarrow>
     (case set_column ''Selling Price'' selling df3 of
        Inl e \<Rightarrow> (Inl e, s2)
      | Inr df4 \<Rightarrow> (Inr df4, s2\<lparr>session := Some df4\<rparr>)))))))"

subsection \<open>The exported file\<close>

text \<open>
  \<^verbatim>\<open>df.to_csv(csv_buf, index=False)\<close> and \<^verbatim>\<open>pd.read_csv(uploaded_file)\<close>, with the defaults
  that the pandas documentation gives. A file is its header and its records, each a list
  of fields; separators and quoting are taken to give back the fields as they were written.

  Writing: a missing value is written as the empty field (\<^verbatim>\<open>na_rep=''\<close>), a number as
  Python prints it, text as it is.

  Reading: a file without columns and a record with more fields than the header raise; a
  record with fewer fields is filled with missing values. A field is missing when it is
  one of the default \<^verbatim>\<open>na_values\<close>, the empty field among them. A column whose fields are
  all missing or numbers becomes a column of numbers, any other column a column of text.
  Column labels are taken to be distinct.
\<close>

record csv_file =
  header :: "string list"
  records :: "string list list"

definition to_csv_field :: "('w, 'n) env \<Rightarrow> 'n cell \<Rightarrow> string" where
  "to_csv_field env v =
     (case v of PyNone \<Rightarrow> [] | NaN \<Rightarrow> [] | Num x \<Rightarrow> num_str env x | Str s \<Rightarrow> s)"

definition to_csv :: "('w, 'n) env \<Rightarrow> 'n dataframe \<Rightarrow> csv_file" where
  "to_csv env df =
     \<lparr>header = columns df,
      records = map (\<lambda>row. map (\<lambda>c. to_csv_field env (row c)) (columns df)) (rows df)\<rparr>"

definition na_values :: "string list" where
  "na_values =
     ['''', ''#N/A'', ''#N/A N/A'', ''#NA'', ''-1.#IND'', ''-1.#QNAN'', ''-NaN'', ''-nan'',
      ''1.#IND'', ''1.#QNAN'', ''<NA>'', ''N/A'', ''NA'', ''NULL'', ''NaN'', ''None'', ''n/a'',
      ''nan'', ''null'']"

definition read_field :: "('w, 'n) env \<Rightarrow> bool \<Rightarrow> string \<Rightarrow> 'n cell" where
  "read_field env numeric t =
     (if t \<in> set na_values then NaN
      else if numeric then (case num_parse env t of Some x \<Rightarrow> Num x | None \<Rightarrow> Str t)
      else Str t)"

definition read_column :: "('w, 'n) env \<Rightarrow> string list \<Rightarrow> 'n cell list" where
  "read_column env ts =
     map (read_field env
            (list_all (\<lambda>t. t \<in> set na_values \<or> num_parse env t \<noteq> None) ts)) ts"

definition field_at :: "string list \<Rightarrow> nat \<Rightarrow> string" where
  "field_at record j = (if j < length record then record ! j else [])"

definition row_of :: "string list \<Rightarrow> 'n cell list \<Rightarrow> string \<Rightarrow> 'n cell" where
  "row_of cs vs = (\<lambda>c. case map_of (zip cs vs) c of Some v \<Rightarrow> v | None \<Rightarrow> NaN)"

definition read_csv :: "('w, 'n) env \<Rightarrow> csv_file \<Rightarrow> string + 'n dataframe" where
  "read_csv env f =
     (if header f = [] then Inl ''No columns to parse from file''
      else if list_ex (\<lambda>record. length (header f) < length record) (records f)
      then Inl ''Error tokenizing data''
      else
        (let typed = map (\<lambda>j. read_column env (map (\<lambda>record. field_at record j) (records f)))
                       [0..<length (header f)]
         in Inr \<lparr>columns = header f,
                 rows = map (\<lambda>i. row_of (header f) (map (\<lambda>column. column ! i) typed))
                          [0..<length (records f)]\<rparr>))"

text \<open>
  The table that comes back when the table the scrape block returns is exported and the
  file is read again.
\<close>

definition export_import :: "('w, 'n) env \<Rightarrow> string + 'n dataframe \<Rightarrow> string + 'n dataframe" where
  "export_import env r = (case r of Inl e \<Rightarrow> Inl e | Inr df \<Rightarrow> read_csv env (to_csv env df))"

section \<open>Reading results\<close>

text \<open>
  The cell in row \<open>i\<close> and column \<open>c\<close> of the table in the session state, and of the
  table a phase returns (\<^verbatim>\<open>None\<close> when there is no table).
\<close>

definition session_cell :: "('w, 'n) state \<Rightarrow> nat \<Rightarrow> string \<Rightarrow> 'n cell" where
  "session_cell s i c = (case session s of None \<Rightarrow> PyNone | Some df \<Rightarrow> (rows df ! i) c)"

definition table_cell :: "string + 'n dataframe \<Rightarrow> nat \<Rightarrow> string \<Rightarrow> 'n cell" where
  "table_cell r i c = (case r of Inl e \<Rightarrow> PyNone | Inr df \<Rightarrow> (rows df ! i) c)"

text \<open>The cells of a table, row by row, in the order of its columns.\<close>

definition cells :: "'n dataframe \<Rightarrow> 'n cell list list" where
  "cells df = map (\<lambda>row. map row (columns df)) (rows df)"

text \<open>
  What the upload loop writes in the status column of a row for the triple that
  \<^verbatim>\<open>upload_product\<close> returned for it.
\<close>

definition recorded_status :: "'n upload_result \<Rightarrow> 'n cell" where
  "recorded_status t =
     (case t of (success, pid, error) \<Rightarrow>
        if success then Str ''Active'' else Str (''Failed: '' @ py_format_error error))"

text \<open>The calls of \<^verbatim>\<open>fetch_product_link\<close> in a trace.\<close>

fun is_lookup :: "'n event \<Rightarrow> bool" where
  "is_lookup (Lookup gtin) = True"
| "is_lookup _ = False"

text \<open>
  A value after export and import when nothing is lost but the kind of missing value:
  \<^verbatim>\<open>None\<close> comes back as NaN.
\<close>

definition reread :: "'n cell \<Rightarrow> 'n cell" where
  "reread v = (if isna v then NaN else v)"

text \<open>
  Columns that survive export and import: a column of numbers that are printed and read
  back exactly, or a column of text none of which is a missing-value marker or reads as a
  number; either may have missing values. A table is safe when it has columns, their
  labels are distinct, and each is such a column.
\<close>

definition numeric_column :: "('w, 'n) env \<Rightarrow> 'n cell list \<Rightarrow> bool" where
  "numeric_column env vs =
     list_all (\<lambda>v. case v of
                      Num x \<Rightarrow> num_str env x \<notin> set na_values \<and>
                               num_parse env (num_str env x) = Some x
                    | Str s \<Rightarrow> False
                    | _ \<Rightarrow> True) vs"

definition text_column :: "('w, 'n) env \<Rightarrow> 'n cell list \<Rightarrow> bool" where
  "text_column env vs =
     list_all (\<lambda>v. case v of
                      Str s \<Rightarrow> s \<notin> set na_values \<and> num_parse env s = None
                    | Num x \<Rightarrow> False
                    | _ \<Rightarrow> True) vs"

definition round_trip_safe :: "('w, 'n) env \<Rightarrow> 'n dataframe \<Rightarrow> bool" where
  "round_trip_safe env df =
     (columns df \<noteq> [] \<and> distinct (columns df) \<and>
      list_all (\<lambda>c. numeric_column env (map (\<lambda>row. row c) (rows df)) \<or>
                     text_column env (map (\<lambda>row. row c) (rows df))) (columns df))"

section \<open>A small catalogue and shop\<close>

text \<open>
  A concrete environment on which the functions can be run. Numbers are rationals with the
  exact product, printed in decimal when they are whole; the world counts the requests
  made. The catalogue knows the identifier \<open>111\<close> (a product page with description \<open>D1\<close>
  and image \<open>I1\<close>), the identifier \<open>333\<close> (whose product page times out) and the
  identifier \<open>555\<close> (whose product page has neither a description nor an image); a
  search for anything else finds nothing. The shop rejects the product with the
  stock-keeping unit \<open>222\<close>, has one location, and opens a session for any credentials
  with a version. \<^verbatim>\<open>int\<close> and \<^verbatim>\<open>float\<close> convert numbers, \<^verbatim>\<open>int\<close> also text made of digits;
  on any other text they raise.
\<close>

definition demo_search_page :: "string \<Rightarrow> soup" where
  "demo_search_page link =
     \<lparr>popular_div = Some (Suggest_div (Some (A_tag (Some link)))),
      description_div = None, image_div = None\<rparr>"

definition demo_site :: "string \<Rightarrow> request_error + content" where
  "demo_site url =
     (if url = search_url ''111'' then Inr (Inr (demo_search_page ''https://shop/p111''))
      else if url = search_url ''333'' then Inr (Inr (demo_search_page ''https://shop/p333''))
      else if url = search_url ''555'' then Inr (Inr (demo_search_page ''https://shop/bare''))
      else if take (length (search_url [])) url = search_url []
        then Inr (Inr \<lparr>popular_div = None, description_div = None, image_div = None\<rparr>)
      else if url = ''https://shop/p111''
        then Inr (Inr \<lparr>popular_div = None, description_div = Some ''D1'',
                       image_div = Some (Image_container (Some (Img_tag (Some ''I1''))))\<rparr>)
      else if url = ''https://shop/p333'' then Inl (Request_exception ''Read timed out.'')
      else if url = ''https://shop/bare''
        then Inr (Inr \<lparr>popular_div = None, description_div = None,
                       image_div = Some (Image_container None)\<rparr>)
      else Inl (Request_exception ''404 Client Error''))"

definition is_digit :: "char \<Rightarrow> bool" where
  "is_digit c = (48 \<le> (of_char c :: nat) \<and> (of_char c :: nat) \<le> 57)"

definition digits_value :: "string \<Rightarrow> nat" where
  "digits_value s = foldl (\<lambda>a c. 10 * a + (of_char c - 48)) 0 s"

fun nat_digits :: "nat \<Rightarrow> nat \<Rightarrow> string" where
  "nat_digits 0 n = [char_of (48 + n mod 10)]"
| "nat_digits (Suc fuel) n =
     (if n < 10 then [char_of (48 + n)]
      else nat_digits fuel (n div 10) @ [char_of (48 + n mod 10)])"

definition nat_str :: "nat \<Rightarrow> string" where
  "nat_str n = nat_digits n n"

definition demo_num_str :: "rat \<Rightarrow> string" where
  "demo_num_str x =
     (case quotient_of x of
        (a, b) \<Rightarrow> (if a < 0 then ''-'' else []) @ nat_str (nat \<bar>a\<bar>) @
                  (if b = 1 then [] else ''/'' @ nat_str (nat b)))"

definition demo_num_parse :: "string \<Rightarrow> rat option" where
  "demo_num_parse s =
     (if s \<noteq> [] \<and> list_all is_digit s then Some (of_nat (digits_value s)) else None)"

definition demo_int :: "rat cell \<Rightarrow> string + int" where
  "demo_int v =
     (case v of
        Num x \<Rightarrow> Inr (if 0 \<le> x then \<lfloor>x\<rfloor> else \<lceil>x\<rceil>)
      | Str s \<Rightarrow>
          if s \<noteq> [] \<and> list_all is_digit s
          then Inr (int (digits_value s))
          else Inl (''invalid literal for int() with base 10: '' @ py_repr_str s)
      | NaN \<Rightarrow> Inl ''cannot convert float NaN to integer''
      | PyNone \<Rightarrow> Inl ''int() argument must be a string or a real number'')"

definition demo_float :: "rat cell \<Rightarrow> string + rat" where
  "demo_float v =
     (case v of
        Num x \<Rightarrow> Inr x
      | Str s \<Rightarrow> Inl (''could not convert string to float: '' @ py_repr_str s)
      | NaN \<Rightarrow> Inl ''nan''
      | PyNone \<Rightarrow> Inl ''float() argument must be a string or a real number'')"

definition demo_env :: "(nat, rat) env" where
  "demo_env =
     \<lparr>requests_get = (\<lambda>url n. (demo_site url, Suc n)),
      activate_session = (\<lambda>shop_url' api_version' api_token' n.
         (if api_version' = [] then Inl ''VersionNotFoundError'' else Inr (), n)),
      product_save = (\<lambda>p n.
         (if map sku (variants p) = [''222''] then Inr (Rejected [''title required''])
          else Inr (Saved \<lparr>product_id = 9000 + of_nat n, variant_items = [70]\<rparr>), Suc n)),
      location_find = (\<lambda>n. (Inr [5], Suc n)),
      inventory_set = (\<lambda>location_id inventory_item_id available n. (Inr (), Suc n)),
      num_str = demo_num_str,
      num_truthy = (\<lambda>x. x \<noteq> 0),
      float_mul = (\<lambda>x y. x * y),
      lit_1_40 = 7 / 5,
      lit_0_0 = 0,
      py_int = demo_int,
      py_float = demo_float,
      num_parse = demo_num_parse\<rparr>"

text \<open>
  Variants of the shop: without any location; with a save, a search for locations or an
  inventory request that raises; and one that answers a save without variants. And a
  variant of the catalogue whose product page for \<open>333\<close> makes the request raise an
  exception that is not a \<^verbatim>\<open>RequestException\<close>.
\<close>

definition demo_env_no_location :: "(nat, rat) env" where
  "demo_env_no_location = demo_env\<lparr>location_find := (\<lambda>n. (Inr [], Suc n))\<rparr>"

definition demo_env_save_down :: "(nat, rat) env" where
  "demo_env_save_down = demo_env\<lparr>product_save := (\<lambda>p n. (Inl ''Connection refused'', Suc n))\<rparr>"

definition demo_env_no_variant :: "(nat, rat) env" where
  "demo_env_no_variant =
     demo_env\<lparr>product_save := (\<lambda>p n.
        (Inr (Saved \<lparr>product_id = 9000 + of_nat n, variant_items = []\<rparr>), Suc n))\<rparr>"

definition demo_env_locations_down :: "(nat, rat) env" where
  "demo_env_locations_down = demo_env\<lparr>location_find := (\<lambda>n. (Inl ''429 Too Many Requests'', Suc n))\<rparr>"

definition demo_env_inventory_down :: "(nat, rat) env" where
  "demo_env_inventory_down =
     demo_env\<lparr>inventory_set := (\<lambda>location_id inventory_item_id available n.
                                   (Inl ''502 Bad Gateway'', Suc n))\<rparr>"


definition demo_state :: "(nat, rat) state" where
  "demo_state = \<lparr>world = 0, trace = [], session = None\<rparr>"

text \<open>Rows of an uploaded file; every column that is not listed is empty.\<close>

definition demo_row :: "rat cell \<Rightarrow> string \<Rightarrow> rat cell \<Rightarrow> rat cell \<Rightarrow> string \<Rightarrow> rat cell" where
  "demo_row gtin name cost inventory =
     (\<lambda>c. NaN)(''GTIN'' := gtin, ''Name'' := Str name, ''Brand'' := Str ''B'',
               ''Category'' := Str ''C'', cost_col := cost, ''Inventory'' := inventory)"

definition demo_df :: "rat dataframe" where
  "demo_df =
     \<lparr>columns = required_cols,
      rows = [demo_row (Num 111) ''One'' (Num 10) (Num 3),
              demo_row (Num 222) ''Two'' NaN (Num 0),
              demo_row (Num 333) ''Three'' (Num 0) NaN]\<rparr>"

text \<open>The table that the scrape phase makes of it, written out.\<close>

definition demo_scraped_df :: "rat dataframe" where
  "demo_scraped_df =
     \<lparr>columns = required_cols @ [''Link'', ''Description'', ''Image_URL'', ''Selling Price''],
      rows = [(demo_row (Num 111) ''One'' (Num 10) (Num 3))
                (''Link'' := Str ''https://shop/p111'', ''Description'' := Str ''D1'',
                 ''Image_URL'' := Str ''I1'', ''Selling Price'' := Num 14),
              (demo_row (Num 222) ''Two'' NaN (Num 0))
                (''Link'' := PyNone, ''Description'' := PyNone,
                 ''Image_URL'' := PyNone, ''Selling Price'' := NaN),
              (demo_row (Num 333) ''Three'' (Num 0) NaN)
                (''Link'' := Str ''https://shop/p333'', ''Description'' := PyNone,
                 ''Image_URL'' := PyNone, ''Selling Price'' := Num 0)]\<rparr>"

text \<open>The state in which that table is in the session state.\<close>

definition demo_scraped_state :: "(nat, rat) state" where
  "demo_scraped_state = demo_state\<lparr>session := Some demo_scraped_df\<rparr>"

text \<open>
  Four more files: one without the inventory column; one whose inventory column holds
  text, which pandas then reads as strings throughout; one whose identifiers are text
  with blanks around them; and one whose only product has the bare product page.
\<close>

definition demo_df_no_inventory :: "rat dataframe" where
  "demo_df_no_inventory =
     \<lparr>columns = [''GTIN'', ''Name'', ''Brand'', ''Category'', cost_col],
      rows = [demo_row (Num 111) ''One'' (Num 10) NaN]\<rparr>"

definition demo_df_text_inventory :: "rat dataframe" where
  "demo_df_text_inventory =
     \<lparr>columns = required_cols,
      rows = [demo_row (Num 111) ''One'' (Num 10) (Str ''3''),
              demo_row (Num 222) ''Two'' (Num 20) (Str ''abc''),
              demo_row (Num 333) ''Three'' (Num 30) (Str ''4'')]\<rparr>"

definition demo_df_padded :: "rat dataframe" where
  "demo_df_padded =
     \<lparr>columns = required_cols,
      rows = [demo_row (Str '' 111'') ''One'' (Num 10) (Num 3),
              demo_row (Str ''A222 '') ''Two'' (Num 20) (Num 0)]\<rparr>"

definition demo_df_bare :: "rat dataframe" where
  "demo_df_bare =
     \<lparr>columns = required_cols,
      rows = [demo_row (Num 555) ''Five'' (Num 10) (Num 3)]\<rparr>"

text \<open>
  A click on the scrape button and a click on the upload button, with a file in the
  uploader and credentials in the sidebar: Streamlit runs \<^verbatim>\<open>main\<close> once for each.
\<close>

definition scrape_click :: "'n dataframe \<Rightarrow> 'n ui" where
  "scrape_click df =
     \<lparr>shop_url = ''demo.myshopify.com'', api_version = ''2024-01'', api_token = ''token'',
      uploaded_file = Some (Inr df), scrape_button = True, upload_button = False\<rparr>"

definition upload_click :: "'n dataframe \<Rightarrow> 'n ui" where
  "upload_click df =
     \<lparr>shop_url = ''demo.myshopify.com'', api_version = ''2024-01'', api_token = ''token'',
      uploaded_file = Some (Inr df), scrape_button = False, upload_button = True\<rparr>"

definition scrape_then_upload ::
  "('w, 'n) env \<Rightarrow> 'n dataframe \<Rightarrow> ('w, 'n) state \<Rightarrow> (string + unit) \<times> ('w, 'n) state" where
  "scrape_then_upload env df s = main env (upload_click df) (snd (main env (scrape_click df) s))"

section \<open>Properties of the table operations and of the scrape loop\<close>

lemma set_column_Inr:
  "set_column c vs df = Inr df' \<longleftrightarrow>
     length vs = length (rows df) \<and>
     df' = df\<lparr>columns := (if c \<in> set (columns df) then columns df else columns df @ [c]),
              rows := map (\<lambda>(r, v). r(c := v)) (zip (rows df) vs)\<rparr>"
  by (auto simp: set_column_def)

lemma set_column_rows:
  assumes "set_column c vs df = Inr df'"
  shows "length (rows df') = length (rows df)"
    and "i < length (rows df) \<Longrightarrow> rows df' ! i = (rows df ! i)(c := vs ! i)"
  using assms by (auto simp: set_column_Inr)

lemma set_column_columns:
  assumes "set_column c vs df = Inr df'"
  shows "columns df' = (if c \<in> set (columns df) then columns df else columns df @ [c])"
  using assms by (auto simp: set_column_Inr)

lemma column_times_1_40_Inr:
  "column_times_1_40 env vs = Inr ps \<Longrightarrow>
     length ps = length vs \<and> (\<forall>i < length vs. times_1_40 env (vs ! i) = Inr (ps ! i))"
proof (induction vs arbitrary: ps)
  case Nil
  then show ?case by simp
next
  case (Cons v vs)
  then show ?case
    by (auto split: sum.splits simp: nth_Cons split: nat.splits)
qed

lemma column_times_1_40_total:
  "(\<forall>v \<in> set vs. v = NaN \<or> (\<exists>x. v = Num x)) \<Longrightarrow> \<exists>ps. column_times_1_40 env vs = Inr ps"
  by (induction vs) (auto simp: times_1_40_def split: sum.splits)

lemma column_times_1_40_text:
  "(\<exists>v \<in> set vs. v = PyNone \<or> (\<exists>t. v = Str t)) \<Longrightarrow> \<exists>e. column_times_1_40 env vs = Inl e"
proof (induction vs)
  case Nil
  then show ?case by simp
next
  case (Cons v vs)
  show ?case
  proof (cases "times_1_40 env v")
    case (Inl e)
    then show ?thesis by simp
  next
    case (Inr p)
    then have "\<not> (v = PyNone \<or> (\<exists>t. v = Str t))"
      by (auto simp: times_1_40_def)
    with Cons.prems have "\<exists>v \<in> set vs. v = PyNone \<or> (\<exists>t. v = Str t)" by auto
    from Cons.IH [OF this] obtain e where "column_times_1_40 env vs = Inl e" by blast
    with Inr show ?thesis by simp
  qed
qed

lemma cost_col_neq [simp]:
  "cost_col \<noteq> ''Link''" "cost_col \<noteq> ''Description''" "cost_col \<noteq> ''Image_URL''"
  "cost_col \<noteq> ''Selling Price''"
  by (simp_all add: cost_col_def)

lemma scrape_rows_length:
  "scrape_rows env rs s = (Inr (descs, imgs), s') \<Longrightarrow>
     length descs = length rs \<and> length imgs = length rs"
  by (induction rs arbitrary: s descs imgs s') (auto split: prod.splits sum.splits)

lemma lookup_rows_length:
  "lookup_rows env rs s = (Inr links, s') \<Longrightarrow> length links = length rs"
  by (induction rs arbitrary: s links s') (auto split: prod.splits sum.splits)

lemma scrape_result:
  assumes "scrape env df s = (Inr df', s')"
  obtains descs imgs s1 links s2 selling where
    "scrape_rows env (rows df) s = (Inr (descs, imgs), s1)"
    "lookup_rows env (rows df) s1 = (Inr links, s2)"
    "s' = s2\<lparr>session := Some df'\<rparr>"
    "column_times_1_40 env (map (\<lambda>row. row cost_col) (rows df)) = Inr selling"
    "length (rows df') = length (rows df)"
    "\<And>i. i < length (rows df) \<Longrightarrow>
        rows df' ! i = (rows df ! i)(''Link'' := opt_cell (links ! i),
           ''Description'' := opt_cell (descs ! i), ''Image_URL'' := opt_cell (imgs ! i),
           ''Selling Price'' := selling ! i)"
proof -
  from assms obtain descs imgs s1 where
    sr: "scrape_rows env (rows df) s = (Inr (descs, imgs), s1)"
    by (cases "scrape_rows env (rows df) s" rule: prod.exhaust [case_names Pair],
        cases "fst (scrape_rows env (rows df) s)")
       (auto simp: scrape_def)
  with assms obtain links s2 where lr: "lookup_rows env (rows df) s1 = (Inr links, s2)"
    by (cases "lookup_rows env (rows df) s1" rule: prod.exhaust [case_names Pair],
        cases "fst (lookup_rows env (rows df) s1)")
       (auto simp: scrape_def)
  note len = scrape_rows_length [OF sr] lookup_rows_length [OF lr]
  from assms sr lr obtain df1 df2 df3 selling where
    c1: "set_column ''Link'' (map opt_cell links) df = Inr df1" and
    c2: "set_column ''Description'' (map opt_cell descs) df1 = Inr df2" and
    c3: "set_column ''Image_URL'' (map opt_cell imgs) df2 = Inr df3" and
    t: "column_times_1_40 env (map (\<lambda>row. row cost_col) (rows df3)) = Inr selling" and
    c4: "set_column ''Selling Price'' selling df3 = Inr df'" and
    s': "s' = s2\<lparr>session := Some df'\<rparr>"
    by (auto simp: scrape_def split: sum.splits)
  note r1 = set_column_rows [OF c1] and r2 = set_column_rows [OF c2]
    and r3 = set_column_rows [OF c3] and r4 = set_column_rows [OF c4]
  have l3: "length (rows df3) = length (rows df)"
    using r1(1) r2(1) r3(1) by simp
  have rows3: "rows df3 ! i = (rows df ! i)(''Link'' := opt_cell (links ! i),
           ''Description'' := opt_cell (descs ! i), ''Image_URL'' := opt_cell (imgs ! i))"
    if "i < length (rows df)" for i
    using that r1 r2 r3 len by simp
  have "map (\<lambda>row. row cost_col) (rows df3) = map (\<lambda>row. row cost_col) (rows df)"
    by (rule nth_equalityI) (simp_all add: l3 rows3)
  with t have t': "column_times_1_40 env (map (\<lambda>row. row cost_col) (rows df)) = Inr selling"
    by simp
  show ?thesis
  proof (rule that [OF sr lr s' t'])
    show "length (rows df') = length (rows df)" using r4(1) l3 by simp
    show "rows df' ! i = (rows df ! i)(''Link'' := opt_cell (links ! i),
           ''Description'' := opt_cell (descs ! i), ''Image_URL'' := opt_cell (imgs ! i),
           ''Selling Price'' := selling ! i)" if "i < length (rows df)" for i
      using that r4(2) [of i] l3 rows3 by simp
  qed
qed

lemma scrape_columns:
  assumes "scrape env df s = (Inr df', s')"
  shows "set (columns df) \<subseteq> set (columns df')"
proof -
  from assms obtain v1 v2 v3 v4 df1 df2 df3 where
    c1: "set_column ''Link'' v1 df = Inr df1" and
    c2: "set_column ''Description'' v2 df1 = Inr df2" and
    c3: "set_column ''Image_URL'' v3 df2 = Inr df3" and
    c4: "set_column ''Selling Price'' v4 df3 = Inr df'"
    by (auto simp: scrape_def split: sum.splits prod.splits)
  show ?thesis
    using set_column_columns [OF c1] set_column_columns [OF c2] set_column_columns [OF c3]
      set_column_columns [OF c4]
    by (auto split: if_splits)
qed

text \<open>
  When no request raises an exception that is not a \<^verbatim>\<open>RequestException\<close>, the scraping
  functions and the loops return.
\<close>

lemma http_get_fst:
  "fst (http_get env url s) = fst (requests_get env url (world s))"
  by (simp add: http_get_def split: prod.splits)

lemma fetch_product_link_Inr:
  assumes "\<forall>url w e. fst (requests_get env url w) \<noteq> Inl (Other_exception e)"
  shows "\<exists>link s'. fetch_product_link env gtin s = (Inr link, s')"
proof -
  let ?s = "emit (Lookup gtin) s"
  obtain r s1 where g: "http_get env (search_url gtin) ?s = (r, s1)"
    by (metis prod.exhaust)
  with http_get_fst [of env "search_url gtin" ?s] assms
  have "\<forall>e. r \<noteq> Inl (Other_exception e)" by simp
  with g show ?thesis
    by (auto simp: fetch_product_link_def
          split: sum.splits request_error.splits option.splits)
qed

lemma fetch_product_details_Inr:
  assumes "\<forall>url w e. fst (requests_get env url w) \<noteq> Inl (Other_exception e)"
  shows "\<exists>r s'. fetch_product_details env url s = (Inr r, s')"
proof -
  let ?s = "emit (Details url) s"
  obtain r s1 where g: "http_get env url ?s = (r, s1)"
    by (metis prod.exhaust)
  with http_get_fst [of env url ?s] assms
  have "\<forall>e. r \<noteq> Inl (Other_exception e)" by simp
  with g show ?thesis
    by (auto simp: fetch_product_details_def Let_def
          split: sum.splits request_error.splits option.splits)
qed

lemma scrape_row_Inr:
  assumes "\<forall>url w e. fst (requests_get env url w) \<noteq> Inl (Other_exception e)"
  shows "\<exists>r s'. scrape_row env row s = (Inr r, s')"
proof -
  let ?g = "strip (py_str env (row ''GTIN''))"
  from fetch_product_link_Inr [OF assms] obtain link s1 where
    l: "fetch_product_link env ?g s = (Inr link, s1)" by blast
  show ?thesis
  proof (cases "\<exists>url. link = Some url \<and> url \<noteq> []")
    case True
    then obtain url where u: "link = Some url" "url \<noteq> []" by blast
    from fetch_product_details_Inr [OF assms] obtain r s2 where
      "fetch_product_details env url s1 = (Inr r, s2)" by blast
    with l u show ?thesis by (cases r) (simp add: scrape_row_def)
  next
    case False
    with l show ?thesis by (cases link) (auto simp: scrape_row_def)
  qed
qed

lemma scrape_rows_Inr:
  assumes "\<forall>url w e. fst (requests_get env url w) \<noteq> Inl (Other_exception e)"
  shows "\<exists>r s'. scrape_rows env rs s = (Inr r, s')"
proof (induction rs arbitrary: s)
  case Nil
  show ?case by simp
next
  case (Cons row rs)
  from scrape_row_Inr [OF assms] obtain r s1 where
    a: "scrape_row env row s = (Inr r, s1)" by blast
  from Cons obtain r' s2 where b: "scrape_rows env rs s1 = (Inr r', s2)" by blast
  from a b show ?case by (cases r, cases r') simp
qed

lemma lookup_rows_Inr:
  assumes "\<forall>url w e. fst (requests_get env url w) \<noteq> Inl (Other_exception e)"
  shows "\<exists>r s'. lookup_rows env rs s = (Inr r, s')"
proof (induction rs arbitrary: s)
  case Nil
  show ?case by simp
next
  case (Cons row rs)
  from fetch_product_link_Inr [OF assms] obtain l s1 where
    a: "fetch_product_link env (py_str env (row ''GTIN'')) s = (Inr l, s1)" by blast
  from Cons obtain r' s2 where b: "lookup_rows env rs s1 = (Inr r', s2)" by blast
  from a b show ?case by simp
qed

lemma scrape_total:
  assumes other: "\<forall>url w e. fst (requests_get env url w) \<noteq> Inl (Other_exception e)"
      and cost: "\<forall>r \<in> set (rows df). r cost_col = NaN \<or> (\<exists>x. r cost_col = Num x)"
  shows "\<exists>df' s'. scrape env df s = (Inr df', s')"
proof -
  from scrape_rows_Inr [OF other] obtain descs imgs s1 where
    sr: "scrape_rows env (rows df) s = (Inr (descs, imgs), s1)"
    by (metis prod.exhaust)
  from lookup_rows_Inr [OF other] obtain links s2 where
    lr: "lookup_rows env (rows df) s1 = (Inr links, s2)"
    by blast
  note len = scrape_rows_length [OF sr] lookup_rows_length [OF lr]
  define df1 where "df1 = df\<lparr>columns := (if ''Link'' \<in> set (columns df) then columns df else columns df @ [''Link'']),
              rows := map (\<lambda>(r, v). r(''Link'' := v)) (zip (rows df) (map opt_cell links))\<rparr>"
  have c1: "set_column ''Link'' (map opt_cell links) df = Inr df1"
    using len by (simp add: set_column_Inr df1_def)
  obtain df2 where c2: "set_column ''Description'' (map opt_cell descs) df1 = Inr df2"
    using len set_column_rows(1) [OF c1] by (simp add: set_column_def)
  obtain df3 where c3: "set_column ''Image_URL'' (map opt_cell imgs) df2 = Inr df3"
    using len set_column_rows(1) [OF c1] set_column_rows(1) [OF c2] by (simp add: set_column_def)
  note r1 = set_column_rows [OF c1] and r2 = set_column_rows [OF c2]
    and r3 = set_column_rows [OF c3]
  have l3: "length (rows df3) = length (rows df)"
    using r1(1) r2(1) r3(1) by simp
  have rows3: "rows df3 ! i = (rows df ! i)(''Link'' := opt_cell (links ! i),
           ''Description'' := opt_cell (descs ! i), ''Image_URL'' := opt_cell (imgs ! i))"
    if "i < length (rows df)" for i
    using that r1 r2 r3 len by simp
  have eq: "map (\<lambda>row. row cost_col) (rows df3) = map (\<lambda>row. row cost_col) (rows df)"
    by (rule nth_equalityI) (simp_all add: l3 rows3)
  from cost have "\<forall>v \<in> set (map (\<lambda>row. row cost_col) (rows df)). v = NaN \<or> (\<exists>x. v = Num x)"
    by auto
  from column_times_1_40_total [OF this] obtain selling where
    t: "column_times_1_40 env (map (\<lambda>row. row cost_col) (rows df3)) = Inr selling"
    unfolding eq by blast
  from column_times_1_40_Inr [OF t] have "length selling = length (rows df3)" by simp
  then obtain df4 where c4: "set_column ''Selling Price'' selling df3 = Inr df4"
    by (simp add: set_column_def)
  show ?thesis
    using sr lr c1 c2 c3 t c4 by (simp add: scrape_def)
qed

text \<open>The state in which the loop reaches a row, and what the turn of a row returns.\<close>

lemma scrape_rows_append:
  "scrape_rows env (xs @ ys) s =
     (case scrape_rows env xs s of
        (Inl e, s1) \<Rightarrow> (Inl e, s1)
      | (Inr (d1, i1), s1) \<Rightarrow>
          (case scrape_rows env ys s1 of
             (Inl e, s2) \<Rightarrow> (Inl e, s2)
           | (Inr (d2, i2), s2) \<Rightarrow> (Inr (d1 @ d2, i1 @ i2), s2)))"
  by (induction xs arbitrary: s) (auto split: prod.splits sum.splits)

lemma scrape_rows_prefix:
  assumes "scrape_rows env (xs @ ys) s = (Inr r, s')"
  shows "\<exists>r1 s1. scrape_rows env xs s = (Inr r1, s1)"
  using assms by (auto simp: scrape_rows_append split: prod.splits sum.splits)

lemma scrape_rows_step:
  assumes "i < length rs" and "scrape_rows env rs s = (Inr r, s')"
  shows "snd (scrape_rows env (take (Suc i) rs) s) =
           snd (scrape_row env (rs ! i) (snd (scrape_rows env (take i rs) s)))"
proof -
  from assms(2) have "scrape_rows env (take (Suc i) rs @ drop (Suc i) rs) s = (Inr r, s')"
    by simp
  from scrape_rows_prefix [OF this] obtain r1 s1 where
    a: "scrape_rows env (take (Suc i) rs) s = (Inr r1, s1)" by blast
  then have "scrape_rows env (take i rs @ [rs ! i]) s = (Inr r1, s1)"
    using assms(1) by (simp add: take_Suc_conv_app_nth)
  then show ?thesis
    unfolding a by (auto simp: scrape_rows_append split: prod.splits sum.splits)
qed

lemma scrape_rows_nth:
  assumes "i < length rs" and "scrape_rows env rs s = (Inr (descs, imgs), s')"
  shows "\<exists>link. fst (scrape_row env (rs ! i) (snd (scrape_rows env (take i rs) s))) =
           Inr (link, descs ! i, imgs ! i)"
  using assms
proof (induction rs arbitrary: i s descs imgs s')
  case Nil
  then show ?case by simp
next
  case (Cons r rs)
  from Cons.prems(2) obtain l d im s1 descs' imgs' where
    a: "scrape_row env r s = (Inr (l, d, im), s1)" and
    b: "scrape_rows env rs s1 = (Inr (descs', imgs'), s')" and
    c: "descs = d # descs'" "imgs = im # imgs'"
    by (auto split: prod.splits sum.splits)
  show ?case
  proof (cases i)
    case 0
    with a c show ?thesis by simp
  next
    case (Suc j)
    with Cons.prems(1) have j: "j < length rs" by simp
    have "snd (scrape_rows env (take i (r # rs)) s) = snd (scrape_rows env (take j rs) s1)"
      using Suc a by (simp split: prod.splits sum.splits)
    with Cons.IH [OF j b] Suc c show ?thesis by simp
  qed
qed

lemma fetch_product_link_trace:
  "\<exists>ws. trace (snd (fetch_product_link env gtin s)) = trace s @ Lookup gtin # ws \<and>
        (\<forall>url. Details url \<notin> set ws)"
  by (auto simp: fetch_product_link_def http_get_def emit_def
           split: prod.splits sum.splits option.splits request_error.splits)

lemma scrape_row_absent_link:
  assumes "fst (fetch_product_link env (strip (py_str env (row ''GTIN''))) s) = Inr None"
  shows "fst (scrape_row env row s) = Inr (None, None, None)"
    and "\<exists>evs. trace (snd (scrape_row env row s)) = trace s @ evs \<and>
               (\<forall>url. Details url \<notin> set evs)"
proof -
  let ?g = "strip (py_str env (row ''GTIN''))"
  obtain s1 where f: "fetch_product_link env ?g s = (Inr None, s1)"
    using assms by (cases "fetch_product_link env ?g s") simp
  then have sr: "scrape_row env row s = (Inr (None, None, None), emit (Sleep 1) s1)"
    by (simp add: scrape_row_def)
  then show "fst (scrape_row env row s) = Inr (None, None, None)" by simp
  from fetch_product_link_trace [of env ?g s] f obtain ws where
    "trace s1 = trace s @ Lookup ?g # ws" "\<forall>url. Details url \<notin> set ws"
    by auto
  then have "trace (snd (scrape_row env row s)) = trace s @ (Lookup ?g # ws @ [Sleep 1]) \<and>
               (\<forall>url. Details url \<notin> set (Lookup ?g # ws @ [Sleep 1]))"
    using sr by (simp add: emit_def)
  then show "\<exists>evs. trace (snd (scrape_row env row s)) = trace s @ evs \<and>
               (\<forall>url. Details url \<notin> set evs)"
    by blast
qed

lemma demo_env_requests:
  "\<forall>url w e. fst (requests_get demo_env url w) \<noteq> Inl (Other_exception e)"
  by (simp add: demo_env_def demo_site_def)

lemma demo_df_cost:
  "\<forall>r \<in> set (rows demo_df). r cost_col = NaN \<or> (\<exists>x. r cost_col = Num x)"
  by (simp add: demo_df_def demo_row_def cost_col_def)


section \<open>The selling price\<close>




section \<open>Rows without a link\<close>

text \<open>
  Claim C2. For every row, if \<^verbatim>\<open>fetch_product_link\<close> returns nothing for the row's
  identifier when the loop reaches the row, then \<^verbatim>\<open>fetch_product_details\<close> is not called in
  that turn of the loop, and the row's description and image are absent in the table.
\<close>

theorem absent_link_skips_scraper:
  assumes sc: "scrape env df s = (Inr df', s')"
      and i: "i < length (rows df)"
      and absent: "fst (fetch_product_link env (strip (py_str env ((rows df ! i) ''GTIN'')))
                         (snd (scrape_rows env (take i (rows df)) s))) = Inr None"
  shows "(rows df' ! i) ''Description'' = PyNone \<and> (rows df' ! i) ''Image_URL'' = PyNone \<and>
         (\<exists>evs. trace (snd (scrape_rows env (take (Suc i) (rows df)) s)) =
                   trace (snd (scrape_rows env (take i (rows df)) s)) @ evs \<and>
                 (\<forall>url. Details url \<notin> set evs))"
proof -
  from sc obtain descs imgs s1 where
    sr: "scrape_rows env (rows df) s = (Inr (descs, imgs), s1)" and
    d: "\<And>i. i < length (rows df) \<Longrightarrow> (rows df' ! i) ''Description'' = opt_cell (descs ! i)" and
    im: "\<And>i. i < length (rows df) \<Longrightarrow> (rows df' ! i) ''Image_URL'' = opt_cell (imgs ! i)"
    by (rule scrape_result) simp
  let ?s = "snd (scrape_rows env (take i (rows df)) s)"
  note row = scrape_row_absent_link [of env "rows df ! i" ?s, OF absent]
  from scrape_rows_nth [OF i sr] row(1)
  have "descs ! i = None" "imgs ! i = None" by auto
  with d [OF i] im [OF i]
  have "(rows df' ! i) ''Description'' = PyNone" "(rows df' ! i) ''Image_URL'' = PyNone"
    by (simp_all add: opt_cell_def)
  moreover from row(2) scrape_rows_step [OF i sr]
  have "\<exists>evs. trace (snd (scrape_rows env (take (Suc i) (rows df)) s)) = trace ?s @ evs \<and>
                 (\<forall>url. Details url \<notin> set evs)"
    by (simp only:)
  ultimately show ?thesis by blast
qed

theorem absent_link_skips_scraper_witness:
  "\<exists>df' s'. scrape demo_env demo_df demo_state = (Inr df', s') \<and>
     (1::nat) < length (rows demo_df) \<and>
     fst (fetch_product_link demo_env (strip (py_str demo_env ((rows demo_df ! 1) ''GTIN'')))
            (snd (scrape_rows demo_env (take 1 (rows demo_df)) demo_state))) = Inr None \<and>
     (rows df' ! 1) ''Description'' = PyNone \<and> (rows df' ! 1) ''Image_URL'' = PyNone"
proof -
  from scrape_total [OF demo_env_requests demo_df_cost] obtain df' s' where
    sc: "scrape demo_env demo_df demo_state = (Inr df', s')" by blast
  have i: "(1::nat) < length (rows demo_df)" by (simp add: demo_df_def)
  have "strip (py_str demo_env ((rows demo_df ! 1) ''GTIN'')) = ''222''"
    by code_simp
  moreover have "fst (fetch_product_link demo_env ''222'' s) = Inr None" for s
    by (simp add: fetch_product_link_def http_get_def demo_env_def demo_site_def
          search_url_def split: prod.splits)
  ultimately have absent: "fst (fetch_product_link demo_env
                      (strip (py_str demo_env ((rows demo_df ! 1) ''GTIN'')))
                      (snd (scrape_rows demo_env (take 1 (rows demo_df)) demo_state))) = Inr None"
    by (simp only:)
  from absent_link_skips_scraper [OF sc i absent] sc i absent
  show ?thesis by blast
qed

section \<open>Product pages without the expected containers\<close>

text \<open>
  Claim C6. If the product page is fetched and parsed but has no description container,
  \<^verbatim>\<open>fetch_product_details\<close> returns the empty string, not \<^verbatim>\<open>None\<close>, for the description; the
  image is \<^verbatim>\<open>None\<close> when the image container, or the image element inside it, is not
  found.
\<close>

theorem fetch_product_details_missing_containers:
  assumes "requests_get env url (world s) = (Inr (Inr page), w)"
  shows "\<exists>description_text image_url.
           fst (fetch_product_details env url s) = Inr (description_text, image_url) \<and>
           (description_div page = None \<longrightarrow> description_text = Some '''') \<and>
           (image_div page = None \<or> (\<exists>c. image_div page = Some c \<and> find_img c = None) \<longrightarrow>
              image_url = None)"
  using assms by (auto simp: fetch_product_details_def http_get_def emit_def)

theorem fetch_product_details_missing_containers_witness:
  "requests_get demo_env ''https://shop/bare'' (world demo_state) =
     (Inr (Inr \<lparr>popular_div = None, description_div = None,
                 image_div = Some (Image_container None)\<rparr>), 1) \<and>
   fst (fetch_product_details demo_env ''https://shop/bare'' demo_state) =
     Inr (Some '''', None)"
proof -
  have get: "requests_get demo_env ''https://shop/bare'' (world demo_state) =
     (Inr (Inr \<lparr>popular_div = None, description_div = None,
                 image_div = Some (Image_container None)\<rparr>), 1)"
    by (simp add: demo_env_def demo_state_def demo_site_def search_url_def)
  from fetch_product_details_missing_containers [OF get] get
  show ?thesis by auto
qed


end
